theory Spec2Isabelle
  imports Main "HOL-Library.AList" "HOL-Library.Word"
begin

section \<open>Python dictionaries\<close>

text \<open>
  A Python \<open>dict\<close> is modelled as an association list in insertion order.
  Assigning \<open>d[k] = v\<close> replaces the value in place when \<open>k\<close> is already a key and
  appends the pair otherwise, which is what \<^const>\<open>AList.update\<close> computes.
  A dictionary never holds a key twice; the functions that build dictionaries below
  establish this, and it is stated as \<open>distinct (keys d)\<close> where a dictionary is an input.
\<close>

type_synonym ('k, 'v) dict = "('k \<times> 'v) list"

definition keys :: "('k, 'v) dict \<Rightarrow> 'k list" where
  "keys d = map fst d"

definition items :: "('k, 'v) dict \<Rightarrow> ('k \<times> 'v) list" where
  "items d = d"

definition contains :: "('k, 'v) dict \<Rightarrow> 'k \<Rightarrow> bool" where
  "contains d k = (k \<in> set (keys d))"

definition setitem :: "('k, 'v) dict \<Rightarrow> 'k \<Rightarrow> 'v \<Rightarrow> ('k, 'v) dict" where
  "setitem d k v = AList.update k v d"

definition getitem :: "('k, 'v) dict \<Rightarrow> 'k \<Rightarrow> 'v option" where
  "getitem d k = map_of d k"

text \<open>The comprehension \<open>{f(x): g(x) for x in xs}\<close>: one assignment per element, in order.\<close>

fun dict_comprehension :: "('a \<Rightarrow> 'k \<times> 'v) \<Rightarrow> ('k, 'v) dict \<Rightarrow> 'a list \<Rightarrow> ('k, 'v) dict" where
  "dict_comprehension f d [] = d"
| "dict_comprehension f d (x # xs) = dict_comprehension f (setitem d (fst (f x)) (snd (f x))) xs"

section \<open>Data model (core/fin\_report\_processors/models.py)\<close>

record MetricValues =
  current :: "string option"
  previous :: "string option"

text \<open>\<open>MetricValues()\<close>: both fields default to \<open>None\<close>.\<close>

definition MetricValues_default :: MetricValues where
  "MetricValues_default = \<lparr>current = None, previous = None\<rparr>"

text \<open>
  A UUID is a 128-bit value.

  A \<open>datetime\<close> holds its date and time fields, read here as one count of microseconds,
  and an optional offset from UTC (\<open>tzinfo\<close>), in microseconds too. Without an offset the
  value is naive, with one it is aware. Python's \<open>==\<close> compares two naive values by their
  fields and two aware values by the instants they denote; a naive and an aware value are
  never equal.
\<close>

type_synonym uuid = "128 word"

record datetime =
  wall_clock :: int
  utcoffset :: "int option"

definition datetime_eq :: "datetime \<Rightarrow> datetime \<Rightarrow> bool" where
  "datetime_eq a b =
     (case (utcoffset a, utcoffset b) of
        (None, None) \<Rightarrow> wall_clock a = wall_clock b
      | (Some offset_a, Some offset_b) \<Rightarrow> wall_clock a - offset_a = wall_clock b - offset_b
      | _ \<Rightarrow> False)"

text \<open>
  \<open>datetime.now(timezone.utc)\<close>: an aware value with offset zero. The reading of the
  clock is a parameter.
\<close>

definition datetime_now :: "int \<Rightarrow> datetime" where
  "datetime_now clock = \<lparr>wall_clock = clock, utcoffset = Some 0\<rparr>"

record ProcessedData =
  report_id :: uuid
  data :: "(string, MetricValues) dict"
  processed_at :: datetime
  error :: "string option"

text \<open>
  Equality of two \<open>ProcessedData\<close> values as Python computes it: field by field, with
  dictionaries equal when they hold the same entries in whatever order.
\<close>

definition dict_eq :: "('k, 'v) dict \<Rightarrow> ('k, 'v) dict \<Rightarrow> bool" where
  "dict_eq a b = (set (items a) = set (items b))"

definition ProcessedData_eq :: "ProcessedData \<Rightarrow> ProcessedData \<Rightarrow> bool" where
  "ProcessedData_eq a b =
     (report_id a = report_id b \<and> dict_eq (data a) (data b)
      \<and> datetime_eq (processed_at a) (processed_at b) \<and> error a = error b)"

section \<open>Extraction result and normalisation (infra/llm\_based\_processor.py)\<close>

record ExtractedMetric =
  name :: string
  metric_current :: "string option"
  metric_previous :: "string option"

record ExtractionResult =
  extraction_report_id :: "string option"
  metrics :: "ExtractedMetric list"

text \<open>
  The loop of \<open>_build_metrics_from_extraction\<close>: a metric whose name is not a key of
  \<open>processed\<close> is skipped (\<open>continue\<close>); otherwise its entry is assigned a fresh
  \<open>MetricValues\<close> made of the metric's two fields.
\<close>

fun assign_metrics ::
  "(string, MetricValues) dict \<Rightarrow> ExtractedMetric list \<Rightarrow> (string, MetricValues) dict" where
  "assign_metrics processed [] = processed"
| "assign_metrics processed (metric # rest) =
     (if \<not> contains processed (name metric) then assign_metrics processed rest
      else assign_metrics
             (setitem processed (name metric)
                \<lparr>current = metric_current metric, previous = metric_previous metric\<rparr>)
             rest)"

text \<open>
  \<open>metrics_config\<close> is the processor's schema: metric name to configuration. The
  configuration values are never inspected by the normaliser, so their type is a parameter.
\<close>

definition build_metrics_from_extraction ::
  "(string, 'c) dict \<Rightarrow> ExtractionResult \<Rightarrow> (string, MetricValues) dict" where
  "build_metrics_from_extraction metrics_config extraction =
     (let processed = dict_comprehension (\<lambda>metric_name. (metric_name, MetricValues_default)) []
                        (keys metrics_config)
      in assign_metrics processed (metrics extraction))"

text \<open>
  Configuration values and document metadata are Python objects; the shapes that occur
  are \<open>None\<close>, strings, tuples and string-keyed dictionaries.
\<close>

datatype pyobj = PyNone | PyStr string | PyTuple "pyobj list" | PyDict "(string \<times> pyobj) list"

record ReportFileData =
  content :: string
  metadata :: "(string, pyobj) dict"

text \<open>
  An exception object is modelled by the one thing the code reads from it: the text that
  \<open>str(exc)\<close> gives. That text is empty for an exception raised without arguments,
  such as \<open>TimeoutError()\<close>.
\<close>

datatype exception = Exception (str: string)

text \<open>The value a processor returns: \<open>ProcessedData | Exception\<close>.\<close>

datatype processed = Failure exception | Success ProcessedData

text \<open>
  \<open>ReportDataProcessor.__init__\<close> (core/fin\_report\_processors/services.py) copies the
  mapping it is given entry by entry.
\<close>

definition ReportDataProcessor_init :: "(string, 'c) dict \<Rightarrow> (string, 'c) dict" where
  "ReportDataProcessor_init metrics_config =
     dict_comprehension (\<lambda>(metric_name, config). (metric_name, config)) [] (items metrics_config)"

text \<open>
  \<open>ReportDataProcessor.process\<close>. Two collaborators are parameters: \<open>format_prompt\<close>
  stands for \<open>self._prompt_template.format(...)\<close> with its two \<open>json.dumps\<close> calls, and
  \<open>ainvoke\<close> for the structured LLM call; either may raise (\<open>Inl\<close>). The fresh
  \<open>uuid7()\<close> and the clock reading are parameters too. The result is \<open>Inl\<close> when
  \<open>process\<close> itself raises and \<open>Inr\<close> of the returned value otherwise: only the LLM
  call is inside the \<open>try\<close>, and its exception is returned, not raised. The
  defaults \<open>metadata or {}\<close> and \<open>content or ""\<close> replace an empty value by an
  empty value and so leave both as they are.
\<close>

definition process ::
  "((string, pyobj) dict \<Rightarrow> string \<Rightarrow> (string, 'c) dict \<Rightarrow> exception + string) \<Rightarrow>
   (string \<Rightarrow> exception + ExtractionResult) \<Rightarrow> uuid \<Rightarrow> int \<Rightarrow>
   (string, 'c) dict \<Rightarrow> ReportFileData \<Rightarrow> exception + processed" where
  "process format_prompt ainvoke uuid7 now metrics_config report_file_data =
     (case format_prompt (metadata report_file_data) (content report_file_data) metrics_config of
        Inl exc \<Rightarrow> Inl exc
      | Inr prompt \<Rightarrow>
          (case ainvoke prompt of
             Inl exc \<Rightarrow> Inr (Failure exc)
           | Inr extraction \<Rightarrow>
               (let processed_metrics = build_metrics_from_extraction metrics_config extraction;
                    report_id = uuid7
                in Inr (Success \<lparr>report_id = report_id, data = processed_metrics,
                                 processed_at = datetime_now now, error = None\<rparr>))))"

section \<open>The builder and its default schema (core/fin\_report\_processors)\<close>

datatype MetadataKeyConfig =
  KeysMapping "(string \<times> string) list" | KeysSequence "string list" | KeysStr string | KeysNone

record MetricConfig =
  aliases :: "string list"
  metadata_keys :: MetadataKeyConfig

record DefaultMetricsModel =
  non_current_assets :: MetricConfig
  current_assets :: MetricConfig
  prepaid_expenses :: MetricConfig
  deferred_tax_assets :: MetricConfig

definition DEFAULT_METRICS_MODEL :: DefaultMetricsModel where
  "DEFAULT_METRICS_MODEL =
     \<lparr>non_current_assets =
        \<lparr>aliases = [''non current assets'', ''non-current assets''],
         metadata_keys = KeysSequence [''non_current_assets_current'', ''non_current_assets_previous'']\<rparr>,
      current_assets =
        \<lparr>aliases = [''current assets''],
         metadata_keys = KeysSequence [''current_assets_current'', ''current_assets_previous'']\<rparr>,
      prepaid_expenses =
        \<lparr>aliases = [''prepaid expenses'', ''prepaid expense''],
         metadata_keys = KeysSequence [''prepaid_expenses_current'', ''prepaid_expenses_previous'']\<rparr>,
      deferred_tax_assets =
        \<lparr>aliases = [''deferred tax assets'', ''deferred tax asset''],
         metadata_keys = KeysSequence [''deferred_tax_assets_current'', ''deferred_tax_assets_previous'']\<rparr>\<rparr>"

text \<open>\<open>model_dump(mode="python")\<close>: a model becomes a dictionary keyed by its field names.\<close>

fun dump_metadata_keys :: "MetadataKeyConfig \<Rightarrow> pyobj" where
  "dump_metadata_keys (KeysMapping m) = PyDict (map (\<lambda>(k, v). (k, PyStr v)) m)"
| "dump_metadata_keys (KeysSequence ks) = PyTuple (map PyStr ks)"
| "dump_metadata_keys (KeysStr s) = PyStr s"
| "dump_metadata_keys KeysNone = PyNone"

definition dump_MetricConfig :: "MetricConfig \<Rightarrow> pyobj" where
  "dump_MetricConfig c =
     PyDict [(''aliases'', PyTuple (map PyStr (aliases c))),
             (''metadata_keys'', dump_metadata_keys (metadata_keys c))]"

definition model_dump :: "DefaultMetricsModel \<Rightarrow> (string, pyobj) dict" where
  "model_dump m =
     [(''non_current_assets'', dump_MetricConfig (non_current_assets m)),
      (''current_assets'', dump_MetricConfig (current_assets m)),
      (''prepaid_expenses'', dump_MetricConfig (prepaid_expenses m)),
      (''deferred_tax_assets'', dump_MetricConfig (deferred_tax_assets m))]"

text \<open>
  The three shapes of the \<open>metrics_config\<close> argument of \<open>ReportDataBuilder.__init__\<close>.
  A mapping is copied by \<open>dict(metrics_config)\<close>, which keeps its entries as they are.
\<close>

datatype metrics_config_arg =
  ConfigNone | ConfigModel DefaultMetricsModel | ConfigMapping "(string, pyobj) dict"

fun ReportDataBuilder_init :: "metrics_config_arg \<Rightarrow> (string, pyobj) dict" where
  "ReportDataBuilder_init ConfigNone = model_dump DEFAULT_METRICS_MODEL"
| "ReportDataBuilder_init (ConfigModel m) = model_dump m"
| "ReportDataBuilder_init (ConfigMapping m) = m"

text \<open>
  \<open>ReportDataBuilder.process\<close>: build a processor over the builder's schema (the
  processor's constructor copies it) and delegate to it.
\<close>

definition builder_process ::
  "((string, pyobj) dict \<Rightarrow> string \<Rightarrow> (string, pyobj) dict \<Rightarrow> exception + string) \<Rightarrow>
   (string \<Rightarrow> exception + ExtractionResult) \<Rightarrow> uuid \<Rightarrow> int \<Rightarrow>
   metrics_config_arg \<Rightarrow> ReportFileData \<Rightarrow> exception + processed" where
  "builder_process format_prompt ainvoke uuid7 now config report_file_data =
     process format_prompt ainvoke uuid7 now
       (ReportDataProcessor_init (ReportDataBuilder_init config)) report_file_data"

section \<open>The repository (infra/sqlalchemy\_repository.py)\<close>

text \<open>
  The two tables are seen as the ORM presents them: each row of \<open>processed_reports\<close>
  carries the list of its metric rows. The table is a map from the primary key to the
  other columns. The key column holds \<open>str(report_id)\<close>, which \<open>UUID(...)\<close> reads back,
  so the map is keyed by the UUID itself. The store is taken to be available: \<open>save\<close>
  and \<open>get\<close> are total.

  The column \<open>processed_at\<close> is declared \<open>DateTime(timezone=True)\<close>. What a later read
  returns for a value written to it is decided by the engine behind the session factory,
  so it is a parameter of \<open>save\<close> (\<open>column\<close>). With SQLite, the engine of the default
  database URL, the date and time fields are stored as text and the offset is not stored:
  a value comes back with the same fields and without \<open>tzinfo\<close>.
\<close>

definition sqlite_datetime :: "datetime \<Rightarrow> datetime" where
  "sqlite_datetime written = written\<lparr>utcoffset := None\<rparr>"

record ReportMetricRecord =
  metric_name :: string
  current_value :: "string option"
  previous_value :: "string option"

record ReportRecord =
  record_processed_at :: datetime
  record_error :: "string option"
  record_metrics :: "ReportMetricRecord list"

type_synonym database = "uuid \<rightharpoonup> ReportRecord"

text \<open>The loop \<open>for name, values in processed_report.data.items(): record.metrics.append(...)\<close>.\<close>

fun append_metrics ::
  "ReportMetricRecord list \<Rightarrow> (string \<times> MetricValues) list \<Rightarrow> ReportMetricRecord list" where
  "append_metrics rows [] = rows"
| "append_metrics rows ((key, values) # rest) =
     append_metrics
       (rows @ [\<lparr>metric_name = key, current_value = current values,
                 previous_value = previous values\<rparr>])
       rest"

definition save :: "(datetime \<Rightarrow> datetime) \<Rightarrow> ProcessedData \<Rightarrow> database \<Rightarrow> database" where
  "save column processed_report db =
     (let record =
            (case db (report_id processed_report) of
               None \<Rightarrow> \<lparr>record_processed_at = column (processed_at processed_report),
                         record_error = None, record_metrics = []\<rparr>
             | Some existing \<Rightarrow>
                 existing\<lparr>record_processed_at := column (processed_at processed_report)\<rparr>);
          record = record\<lparr>record_error := error processed_report\<rparr>;
          record = record\<lparr>record_metrics := []\<rparr>;
          record =
            (if error processed_report = None
             then record\<lparr>record_metrics :=
                           append_metrics (record_metrics record) (items (data processed_report))\<rparr>
             else record)
      in db(report_id processed_report \<mapsto> record))"

definition get :: "database \<Rightarrow> uuid \<Rightarrow> ProcessedData option" where
  "get db rid =
     (case db rid of
        None \<Rightarrow> None
      | Some record \<Rightarrow>
          (let metrics =
                 dict_comprehension
                   (\<lambda>metric. (metric_name metric,
                               \<lparr>current = current_value metric, previous = previous_value metric\<rparr>))
                   [] (record_metrics record)
           in Some \<lparr>report_id = rid, data = metrics,
                     processed_at = record_processed_at record, error = record_error record\<rparr>))"

section \<open>The HTTP handlers (app/api/reports.py)\<close>

datatype http_exception = HTTPException nat string

text \<open>
  \<open>process_in_background\<close>. The call of the builder is not inside a \<open>try\<close>: when it
  raises, the exception leaves the task and nothing is saved (\<open>Inl\<close>). When it returns,
  an exception value is turned into a failed report and a \<open>ProcessedData\<close> gets the
  generated identifier; the report is then saved through the repository, whose engine
  is the parameter \<open>column\<close>. \<open>now\<close> is the clock reading taken by the default of
  \<open>processed_at\<close> in the failed report. The removal of the temporary file that follows
  the save changes no report and is left out.
\<close>

definition process_in_background ::
  "(datetime \<Rightarrow> datetime) \<Rightarrow> (ReportFileData \<Rightarrow> exception + processed) \<Rightarrow> int \<Rightarrow>
   ReportFileData \<Rightarrow> uuid \<Rightarrow> database \<Rightarrow> exception + database" where
  "process_in_background column report_data_builder_process now file_data generated_id db =
     (case report_data_builder_process file_data of
        Inl exc \<Rightarrow> Inl exc
      | Inr processed \<Rightarrow>
          (let processed_with_id =
                 (case processed of
                    Failure exc \<Rightarrow>
                      \<lparr>report_id = generated_id, data = [], processed_at = datetime_now now,
                       error = Some (str exc)\<rparr>
                  | Success p \<Rightarrow> p\<lparr>report_id := generated_id\<rparr>)
           in Inr (save column processed_with_id db)))"

text \<open>
  \<open>ProcessedReportResponse\<close>: the report without its \<open>error\<close> field. The timestamp is
  carried as it is; the handler renders it as ISO text.
\<close>

record ProcessedReportResponse =
  response_report_id :: uuid
  response_processed_at :: datetime
  response_data :: "(string, MetricValues) dict"

text \<open>
  \<open>get_processed_report\<close>. The test \<open>if processed.error:\<close> is Python truthiness: an
  optional string is true when it is present and not empty.
\<close>

definition truthy :: "string option \<Rightarrow> bool" where
  "truthy s = (case s of None \<Rightarrow> False | Some text \<Rightarrow> text \<noteq> [])"

definition get_processed_report :: "database \<Rightarrow> uuid \<Rightarrow> http_exception + ProcessedReportResponse" where
  "get_processed_report db rid =
     (case get db rid of
        None \<Rightarrow> Inl (HTTPException 404 ''Report not found'')
      | Some processed \<Rightarrow>
          if truthy (error processed)
          then Inl (HTTPException 500 ''Report processing failed. Please try again later.'')
          else Inr \<lparr>response_report_id = report_id processed,
                    response_processed_at = processed_at processed,
                    response_data = data processed\<rparr>)"

text \<open>
  \<open>upload_report\<close>. The uploaded file is seen through its name, its content type and
  its size; the file reader's two methods are parameters that may raise, as are the name
  of the temporary file and the fresh \<open>uuid7()\<close>. On success the handler returns its
  response together with the arguments of the task it schedules,
  \<open>process_in_background(report_file_data, report_id)\<close>.
\<close>

definition MAX_UPLOAD_SIZE_BYTES :: nat where
  "MAX_UPLOAD_SIZE_BYTES = 2 * 1024 * 1024"

definition ALLOWED_CONTENT_TYPES :: "string set" where
  "ALLOWED_CONTENT_TYPES =
     {''application/vnd.openxmlformats-officedocument.spreadsheetml.sheet'',
      ''application/octet-stream''}"

record UploadFile =
  filename :: "string option"
  content_type :: "string option"
  upload_size :: nat

record 's UploadReportResponse =
  upload_report_id :: uuid
  structured_output :: 's

text \<open>\<open>str.lower\<close> and \<open>str.endswith\<close>, on ASCII text.\<close>

definition lower_char :: "char \<Rightarrow> char" where
  "lower_char c =
     (case map_of (zip ''ABCDEFGHIJKLMNOPQRSTUVWXYZ'' ''abcdefghijklmnopqrstuvwxyz'') c of
        None \<Rightarrow> c
      | Some l \<Rightarrow> l)"

definition lower :: "string \<Rightarrow> string" where
  "lower s = map lower_char s"

definition endswith :: "string \<Rightarrow> string \<Rightarrow> bool" where
  "endswith s suffix = (length suffix \<le> length s \<and> drop (length s - length suffix) s = suffix)"

definition persist_upload :: "UploadFile \<Rightarrow> string \<Rightarrow> http_exception + string" where
  "persist_upload upload temp_file_name =
     (if upload_size upload > MAX_UPLOAD_SIZE_BYTES then Inl (HTTPException 422 ''File exceeded 2MB limit'')
      else if upload_size upload = 0 then Inl (HTTPException 422 ''Uploaded file is empty'')
      else Inr temp_file_name)"

definition upload_report ::
  "(string \<Rightarrow> exception + 's) \<Rightarrow> (string \<Rightarrow> exception + ReportFileData) \<Rightarrow> string \<Rightarrow> uuid \<Rightarrow>
   UploadFile \<Rightarrow> http_exception + ('s UploadReportResponse \<times> (ReportFileData \<times> uuid))" where
  "upload_report reader_structured_output reader_read temp_file_name uuid7 file =
     (if (case filename file of None \<Rightarrow> True | Some fname \<Rightarrow> fname = [] \<or> \<not> endswith (lower fname) ''.xlsx'')
      then Inl (HTTPException 422 ''File must have .xlsx extension'')
      else if (case content_type file of None \<Rightarrow> True | Some ct \<Rightarrow> ct \<notin> ALLOWED_CONTENT_TYPES)
      then Inl (HTTPException 422 ''Unsupported file content type'')
      else
        (case persist_upload file temp_file_name of
           Inl http_exc \<Rightarrow> Inl http_exc
         | Inr temp_path \<Rightarrow>
             (case reader_structured_output temp_path of
                Inl exc \<Rightarrow> Inl (HTTPException 422 ''Unable to parse the uploaded Excel file'')
              | Inr structured \<Rightarrow>
                  (case reader_read temp_path of
                     Inl exc \<Rightarrow> Inl (HTTPException 422 ''Unable to parse the uploaded Excel file'')
                   | Inr report_file_data \<Rightarrow>
                       (let report_id = uuid7
                        in Inr (\<lparr>upload_report_id = report_id, structured_output = structured\<rparr>,
                                (report_file_data, report_id)))))))"

section \<open>Facts about dictionaries\<close>

lemma set_keys_setitem: "set (keys (setitem d k v)) = insert k (set (keys d))"
  using AList.dom_update [of k v d] by (simp add: keys_def setitem_def)

lemma keys_setitem_present: "k \<in> set (keys d) \<Longrightarrow> keys (setitem d k v) = keys d"
  by (simp add: keys_def setitem_def AList.update_keys)

lemma distinct_keys_setitem: "distinct (keys d) \<Longrightarrow> distinct (keys (setitem d k v))"
  by (simp add: keys_def setitem_def AList.distinct_update)

lemma getitem_setitem: "getitem (setitem d k v) k' = (if k' = k then Some v else getitem d k')"
  by (simp add: getitem_def setitem_def AList.update_conv')

lemma getitem_None_iff: "getitem d k = None \<longleftrightarrow> k \<notin> set (keys d)"
  by (simp add: getitem_def keys_def map_of_eq_None_iff)

lemma set_keys_dict_comprehension:
  "set (keys (dict_comprehension f d xs)) = set (keys d) \<union> (fst \<circ> f) ` set xs"
  by (induction xs arbitrary: d) (auto simp: set_keys_setitem)

lemma distinct_keys_dict_comprehension:
  "distinct (keys d) \<Longrightarrow> distinct (keys (dict_comprehension f d xs))"
  by (induction xs arbitrary: d) (auto simp: distinct_keys_setitem)

section \<open>The normaliser\<close>

lemma keys_assign_metrics: "keys (assign_metrics processed ms) = keys processed"
  by (induction ms arbitrary: processed) (auto simp: contains_def keys_setitem_present)

lemma assign_metrics_append:
  "assign_metrics processed (ms @ ms') = assign_metrics (assign_metrics processed ms) ms'"
  by (induction ms arbitrary: processed) auto

lemma set_keys_defaults:
  "set (keys (dict_comprehension (\<lambda>k. (k, v)) [] ks)) = set ks"
  by (simp add: set_keys_dict_comprehension keys_def [of "[]"] image_iff)

lemma keys_build_metrics:
  "keys (build_metrics_from_extraction metrics_config extraction)
     = keys (dict_comprehension (\<lambda>metric_name. (metric_name, MetricValues_default)) [] (keys metrics_config))"
  by (simp add: build_metrics_from_extraction_def keys_assign_metrics)

text \<open>
  C1. For every schema and every list of extracted proposals, the key set of the
  normalised output is exactly the key set of the schema.
\<close>

theorem build_metrics_key_set:
  "set (keys (build_metrics_from_extraction metrics_config extraction)) = set (keys metrics_config)"
proof -
  have "set (keys (build_metrics_from_extraction metrics_config extraction))
          = set (keys (dict_comprehension (\<lambda>metric_name. (metric_name, MetricValues_default)) []
                         (keys metrics_config)))"
    by (simp only: keys_build_metrics)
  also have "\<dots> = set (keys metrics_config)"
    by (rule set_keys_defaults)
  finally show ?thesis .
qed

lemma getitem_assign_metrics:
  "getitem (assign_metrics d ms) n =
     (if n \<in> set (keys d)
      then (case filter (\<lambda>m. name m = n) ms of
              [] \<Rightarrow> getitem d n
            | m # fs \<Rightarrow> Some \<lparr>current = metric_current (last (m # fs)), previous = metric_previous (last (m # fs))\<rparr>)
      else None)"
proof (induction ms rule: rev_induct)
  case Nil
  then show ?case by (simp add: getitem_None_iff)
next
  case (snoc m ms)
  have k: "keys (assign_metrics d ms) = keys d" by (rule keys_assign_metrics)
  show ?case
    using snoc
    by (auto simp: assign_metrics_append contains_def k getitem_setitem getitem_None_iff set_keys_setitem split: list.splits)
qed

lemma getitem_dict_comprehension_const:
  "getitem (dict_comprehension (\<lambda>k. (k, v)) d ks) n = (if n \<in> set ks then Some v else getitem d n)"
  by (induction ks arbitrary: d) (auto simp: getitem_setitem)

lemma assign_metrics_filter:
  "set (keys d) = K \<Longrightarrow> assign_metrics d (filter (\<lambda>m. name m \<in> K) ms) = assign_metrics d ms"
  by (induction ms arbitrary: d) (auto simp: contains_def keys_setitem_present)

text \<open>
  C2. The entry of the normalised output for a name \<open>n\<close>: when \<open>n\<close> is a key of the
  schema and some proposal is named \<open>n\<close>, the entry holds the \<open>current\<close> and
  \<open>previous\<close> of the last such proposal, both fields taken from that one proposal; when
  no proposal is named \<open>n\<close> the entry keeps the default; a name outside the schema has no
  entry. Proposals whose name is not a schema key are discarded: removing them from the
  extraction changes nothing. The normaliser is a total function, so no input raises.
\<close>

theorem normalised_entries:
  "getitem (build_metrics_from_extraction metrics_config extraction) n =
     (if n \<in> set (keys metrics_config)
      then (case filter (\<lambda>metric. name metric = n) (metrics extraction) of
              [] \<Rightarrow> Some MetricValues_default
            | m # ms \<Rightarrow> Some \<lparr>current = metric_current (last (m # ms)),
                               previous = metric_previous (last (m # ms))\<rparr>)
      else None)
   \<and> build_metrics_from_extraction metrics_config
        (extraction\<lparr>metrics := filter (\<lambda>metric. name metric \<in> set (keys metrics_config)) (metrics extraction)\<rparr>)
      = build_metrics_from_extraction metrics_config extraction"
proof -
  let ?fresh = "dict_comprehension (\<lambda>metric_name. (metric_name, MetricValues_default)) [] (keys metrics_config)"
  have k: "set (keys ?fresh) = set (keys metrics_config)"
    by (simp add: set_keys_dict_comprehension keys_def[of "[]"] image_iff)
  have g: "getitem ?fresh n = (if n \<in> set (keys metrics_config) then Some MetricValues_default else None)"
    by (simp add: getitem_dict_comprehension_const) (simp add: getitem_def)
  show ?thesis
    by (simp add: build_metrics_from_extraction_def getitem_assign_metrics k g assign_metrics_filter[OF k]
        split: list.splits)
qed

theorem normalised_entries_witness:
  "getitem
     (build_metrics_from_extraction [(''cash'', ()), (''debt'', ())]
        \<lparr>extraction_report_id = None,
         metrics = [\<lparr>name = ''cash'', metric_current = Some ''100'', metric_previous = Some ''90''\<rparr>,
                    \<lparr>name = ''unused'', metric_current = Some ''1'', metric_previous = None\<rparr>,
                    \<lparr>name = ''cash'', metric_current = None, metric_previous = Some ''7''\<rparr>]\<rparr>)
     ''cash'' = Some \<lparr>current = None, previous = Some ''7''\<rparr>"
  using normalised_entries
    [of "[(''cash'', ()), (''debt'', ())]"
        "\<lparr>extraction_report_id = None,
          metrics = [\<lparr>name = ''cash'', metric_current = Some ''100'', metric_previous = Some ''90''\<rparr>,
                     \<lparr>name = ''unused'', metric_current = Some ''1'', metric_previous = None\<rparr>,
                     \<lparr>name = ''cash'', metric_current = None, metric_previous = Some ''7''\<rparr>]\<rparr>"
        "''cash''"]
  by (simp add: keys_def)

section \<open>The repository\<close>

lemma setitem_absent: "k \<notin> set (keys d) \<Longrightarrow> setitem d k v = d @ [(k, v)]"
  by (induction d) (auto simp: keys_def setitem_def)

lemma dict_comprehension_distinct:
  "distinct (keys d @ map (\<lambda>x. fst (f x)) xs) \<Longrightarrow> dict_comprehension f d xs = d @ map f xs"
proof (induction xs arbitrary: d)
  case Nil
  then show ?case by simp
next
  case (Cons x xs)
  from Cons.prems have absent: "fst (f x) \<notin> set (keys d)" by auto
  from Cons.prems have "distinct (keys (d @ [f x]) @ map (\<lambda>x. fst (f x)) xs)"
    by (auto simp: keys_def)
  from Cons.IH [OF this] show ?case
    by (simp add: setitem_absent [OF absent])
qed

lemma append_metrics_map: "append_metrics rows xs = rows @ map (\<lambda>(k, v). \<lparr>metric_name = k, current_value = current v, previous_value = previous v\<rparr>) xs"
  by (induction rows xs rule: append_metrics.induct) auto

lemma rows_round_trip:
  "distinct (keys d) \<Longrightarrow>
   dict_comprehension (\<lambda>metric. (metric_name metric, \<lparr>current = current_value metric, previous = previous_value metric\<rparr>)) []
     (append_metrics [] (items d)) = d"
proof -
  assume dist: "distinct (keys d)"
  let ?f = "\<lambda>metric. (metric_name metric, \<lparr>current = current_value metric, previous = previous_value metric\<rparr>)"
  let ?g = "\<lambda>(k, v). \<lparr>metric_name = k, current_value = current v, previous_value = previous v\<rparr>"
  have m: "?f \<circ> ?g = id"
    by (auto simp: fun_eq_iff)
  have k: "metric_name \<circ> ?g = fst"
    by (auto simp: fun_eq_iff)
  have "dict_comprehension ?f [] (map ?g d) = [] @ map ?f (map ?g d)"
    by (rule dict_comprehension_distinct) (use dist in \<open>simp add: k keys_def\<close>)
  then show ?thesis
    by (simp add: append_metrics_map items_def m)
qed

lemma get_save:
  "get (save column p db) rid =
     (if rid = report_id p
      then Some \<lparr>report_id = report_id p,
                 data = (if error p = None
                         then dict_comprehension
                                (\<lambda>metric. (metric_name metric,
                                            \<lparr>current = current_value metric,
                                             previous = previous_value metric\<rparr>))
                                [] (append_metrics [] (items (data p)))
                         else []),
                 processed_at = column (processed_at p), error = error p\<rparr>
      else get db rid)"
  by (simp add: get_def save_def Let_def split: option.splits)

lemma save_save: "report_id p = report_id q \<Longrightarrow> save column q (save column p db) = save column q db"
  by (simp add: save_def Let_def split: option.splits)

lemma dom_save: "dom (save column p db) = insert (report_id p) (dom db)"
  by (simp add: save_def Let_def)

lemma get_save_well_formed:
  "distinct (keys (data p)) \<Longrightarrow>
   get (save column p db) rid =
     (if rid = report_id p
      then Some (p\<lparr>data := (if error p = None then data p else []),
                   processed_at := column (processed_at p)\<rparr>)
      else get db rid)"
  by (simp add: get_save rows_round_trip)

section \<open>The background run\<close>

lemma process_in_background_Failure:
  "bp d = Inr (Failure exc) \<Longrightarrow>
   process_in_background column bp now d gid db =
     Inr (save column \<lparr>report_id = gid, data = [], processed_at = datetime_now now,
                      error = Some (str exc)\<rparr> db)"
  by (simp add: process_in_background_def)

lemma process_in_background_Success:
  "bp d = Inr (Success p) \<Longrightarrow>
   process_in_background column bp now d gid db = Inr (save column (p\<lparr>report_id := gid\<rparr>) db)"
  by (simp add: process_in_background_def)

lemma process_in_background_raised:
  "bp d = Inl exc \<Longrightarrow> process_in_background column bp now d gid db = Inl exc"
  by (simp add: process_in_background_def)

lemma builder_process_llm_raises:
  "format_prompt (metadata d) (content d) (ReportDataProcessor_init (ReportDataBuilder_init config)) = Inr prompt \<Longrightarrow>
   ainvoke prompt = Inl exc \<Longrightarrow>
   builder_process format_prompt ainvoke processor_id now config d = Inr (Failure exc)"
  by (simp add: builder_process_def process_def)

lemma builder_process_llm_returns:
  "format_prompt (metadata d) (content d) (ReportDataProcessor_init (ReportDataBuilder_init config)) = Inr prompt \<Longrightarrow>
   ainvoke prompt = Inr extraction \<Longrightarrow>
   builder_process format_prompt ainvoke processor_id now config d =
     Inr (Success \<lparr>report_id = processor_id,
                   data = build_metrics_from_extraction (ReportDataProcessor_init (ReportDataBuilder_init config)) extraction,
                   processed_at = datetime_now now, error = None\<rparr>)"
  by (simp add: builder_process_def process_def)

lemma distinct_keys_build_metrics:
  "distinct (keys (build_metrics_from_extraction metrics_config extraction))"
  by (simp add: build_metrics_from_extraction_def keys_assign_metrics
      distinct_keys_dict_comprehension keys_def[of "[]"])

lemma set_keys_ReportDataProcessor_init:
  "set (keys (ReportDataProcessor_init metrics_config)) = set (keys metrics_config)"
proof -
  have "set (keys (ReportDataProcessor_init metrics_config)) = (\<lambda>x. fst x) ` set metrics_config"
    unfolding ReportDataProcessor_init_def items_def set_keys_dict_comprehension
    by (auto simp: keys_def)
  then show ?thesis by (simp add: keys_def)
qed

lemma upload_report_ids:
  "upload_report so rd tmp new_id file = Inr (response, (d, gid)) \<Longrightarrow>
   upload_report_id response = new_id \<and> gid = new_id"
  by (auto simp: upload_report_def Let_def split: if_splits sum.splits)

text \<open>
  When the structured LLM call raises, \<open>process\<close> returns the exception as a value
  and the background run turns it into a failed report: the run ends without raising,
  having saved under the generated identifier a report whose \<open>error\<close> is the
  exception's text and whose metrics are empty, and \<open>get\<close> returns it.
\<close>

lemma llm_failure_persisted:
  assumes "format_prompt (metadata d) (content d) (ReportDataProcessor_init (ReportDataBuilder_init config)) = Inr prompt"
    and "ainvoke prompt = Inl exc"
  shows "\<exists>db'. process_in_background column (builder_process format_prompt ainvoke processor_id now config) now' d gid db = Inr db'
           \<and> get db' gid = Some \<lparr>report_id = gid, data = [], processed_at = column (datetime_now now'),
                                  error = Some (str exc)\<rparr>"
proof -
  from assms have "builder_process format_prompt ainvoke processor_id now config d = Inr (Failure exc)"
    by (rule builder_process_llm_raises)
  then show ?thesis
    by (simp add: process_in_background_Failure get_save)
qed

lemma builder_process_prompt_raises:
  "format_prompt (metadata d) (content d) (ReportDataProcessor_init (ReportDataBuilder_init config)) = Inl exc \<Longrightarrow>
   builder_process format_prompt ainvoke processor_id now config d = Inl exc"
  by (simp add: builder_process_def process_def)

text \<open>
  C3. A failure of the processor is not always turned into a failed report. The prompt is
  rendered before the \<open>try\<close> of \<open>process\<close>, and \<open>process_in_background\<close> calls the
  processor outside any \<open>try\<close>. In the run below the rendering raises (as
  \<open>str.format\<close> does for a template with a stray brace): the exception leaves the run,
  no report is saved, and retrieval of the identifier answers 404.
\<close>

theorem raising_processor_saves_nothing:
  "process_in_background sqlite_datetime
     (builder_process (\<lambda>meta text config. Inl (Exception ''KeyError''))
        (\<lambda>prompt. Inr \<lparr>extraction_report_id = None, metrics = []\<rparr>) 1 0 ConfigNone)
     5 \<lparr>content = ''body'', metadata = []\<rparr> 7 Map.empty
     = Inl (Exception ''KeyError'')
   \<and> get Map.empty 7 = None
   \<and> get_processed_report Map.empty 7 = Inl (HTTPException 404 ''Report not found'')"
proof -
  have "builder_process (\<lambda>meta text config. Inl (Exception ''KeyError''))
          (\<lambda>prompt. Inr \<lparr>extraction_report_id = None, metrics = []\<rparr>) 1 0 ConfigNone
          \<lparr>content = ''body'', metadata = []\<rparr>
        = Inl (Exception ''KeyError'')"
    by (rule builder_process_prompt_raises) simp
  then have "process_in_background sqlite_datetime
     (builder_process (\<lambda>meta text config. Inl (Exception ''KeyError''))
        (\<lambda>prompt. Inr \<lparr>extraction_report_id = None, metrics = []\<rparr>) 1 0 ConfigNone)
     5 \<lparr>content = ''body'', metadata = []\<rparr> 7 Map.empty
     = Inl (Exception ''KeyError'')"
    by (rule process_in_background_raised)
  moreover have "get Map.empty 7 = None"
    by (simp add: get_def)
  ultimately show ?thesis
    by (simp add: get_processed_report_def)
qed

text \<open>
  C4. When the extractor succeeds, the report that \<open>get\<close> returns for the identifier
  generated by the upload handler has no error, carries that identifier, and its metrics
  are keyed by exactly the keys of the configured schema.
\<close>

theorem extractor_success_persisted:
  assumes up: "upload_report reader_structured_output reader_read temp_file_name new_id upload = Inr (response, (d, gid))"
    and fp: "format_prompt (metadata d) (content d) (ReportDataProcessor_init (ReportDataBuilder_init config)) = Inr prompt"
    and llm: "ainvoke prompt = Inr extraction"
  shows "\<exists>db' r. process_in_background column (builder_process format_prompt ainvoke processor_id now config) now' d gid db = Inr db'
           \<and> get db' (upload_report_id response) = Some r
           \<and> error r = None
           \<and> report_id r = upload_report_id response
           \<and> upload_report_id response = new_id
           \<and> set (keys (data r)) = set (keys (ReportDataBuilder_init config))"
proof -
  let ?S = "ReportDataProcessor_init (ReportDataBuilder_init config)"
  let ?p = "\<lparr>report_id = processor_id, data = build_metrics_from_extraction ?S extraction,
             processed_at = datetime_now now, error = None\<rparr>"
  from upload_report_ids [OF up] have ids: "upload_report_id response = new_id" "gid = new_id"
    by simp_all
  have run: "process_in_background column (builder_process format_prompt ainvoke processor_id now config) now' d gid db
               = Inr (save column (?p\<lparr>report_id := gid\<rparr>) db)"
  proof (rule process_in_background_Success)
    from fp llm show "builder_process format_prompt ainvoke processor_id now config d = Inr (Success ?p)"
      by (rule builder_process_llm_returns)
  qed
  have "get (save column (?p\<lparr>report_id := gid\<rparr>) db) gid
          = Some (?p\<lparr>report_id := gid, processed_at := column (datetime_now now)\<rparr>)"
    by (simp add: get_save_well_formed distinct_keys_build_metrics)
  with run ids show ?thesis
    by (simp add: keys_build_metrics set_keys_defaults set_keys_ReportDataProcessor_init)
qed

theorem extractor_success_persisted_witness:
  "\<exists>db' r. process_in_background sqlite_datetime
             (builder_process (\<lambda>meta text config. Inr ''prompt'')
                (\<lambda>prompt. Inr \<lparr>extraction_report_id = Some ''ignored'',
                                 metrics = [\<lparr>name = ''cash'', metric_current = Some ''10'', metric_previous = Some ''9''\<rparr>]\<rparr>)
                1 0 (ConfigMapping [(''cash'', PyDict [])]))
             5 \<lparr>content = ''body'', metadata = [(''source'', PyStr ''/tmp/x.xlsx'')]\<rparr> 7 Map.empty = Inr db'
         \<and> get db' 7 = Some r \<and> error r = None \<and> report_id r = 7
         \<and> set (keys (data r)) = {''cash''}"
  using extractor_success_persisted
    [where reader_structured_output = "\<lambda>path. Inr [''row'']"
       and reader_read = "\<lambda>path. Inr \<lparr>content = ''body'', metadata = [(''source'', PyStr path)]\<rparr>"
       and temp_file_name = "''/tmp/x.xlsx''" and new_id = 7
       and upload = "\<lparr>filename = Some ''Report.XLSX'', content_type = Some ''application/octet-stream'', upload_size = 16\<rparr>"
       and response = "\<lparr>upload_report_id = 7, structured_output = [''row'']\<rparr>"
       and d = "\<lparr>content = ''body'', metadata = [(''source'', PyStr ''/tmp/x.xlsx'')]\<rparr>" and gid = 7
       and format_prompt = "\<lambda>meta text config. Inr ''prompt''" and prompt = "''prompt''"
       and ainvoke = "\<lambda>prompt. Inr \<lparr>extraction_report_id = Some ''ignored'',
                                 metrics = [\<lparr>name = ''cash'', metric_current = Some ''10'', metric_previous = Some ''9''\<rparr>]\<rparr>"
       and extraction = "\<lparr>extraction_report_id = Some ''ignored'',
                                 metrics = [\<lparr>name = ''cash'', metric_current = Some ''10'', metric_previous = Some ''9''\<rparr>]\<rparr>"
       and processor_id = 1 and now = 0 and config = "ConfigMapping [(''cash'', PyDict [])]" and now' = 5
       and db = Map.empty and column = sqlite_datetime]
  by (simp add: upload_report_def persist_upload_def endswith_def lower_def lower_char_def
      ALLOWED_CONTENT_TYPES_def MAX_UPLOAD_SIZE_BYTES_def keys_def)

section \<open>Errors and metrics exclude each other\<close>

lemma exclusion_save:
  assumes "\<forall>k rec. db k = Some rec \<longrightarrow> record_error rec = None \<or> record_metrics rec = []"
  shows "\<forall>k rec. save column p db k = Some rec \<longrightarrow> record_error rec = None \<or> record_metrics rec = []"
  using assms by (auto simp: save_def Let_def split: option.splits if_splits)

lemma exclusion_fold_save:
  "\<forall>k rec. db k = Some rec \<longrightarrow> record_error rec = None \<or> record_metrics rec = [] \<Longrightarrow>
   \<forall>k rec. fold (save column) ps db k = Some rec \<longrightarrow> record_error rec = None \<or> record_metrics rec = []"
proof (induction ps arbitrary: db)
  case Nil
  then show ?case by simp
next
  case (Cons p ps)
  from Cons.prems have "\<forall>k rec. save column p db k = Some rec \<longrightarrow> record_error rec = None \<or> record_metrics rec = []"
    by (rule exclusion_save)
  from Cons.IH [OF this] show ?case by simp
qed

lemma get_exclusion:
  assumes "\<forall>k rec. db k = Some rec \<longrightarrow> record_error rec = None \<or> record_metrics rec = []"
    and "get db rid = Some r"
  shows "error r = None \<or> data r = []"
proof -
  from assms(2) obtain rec where rec: "db rid = Some rec"
    and err: "error r = record_error rec"
    and dat: "record_metrics rec = [] \<Longrightarrow> data r = []"
    by (auto simp: get_def Let_def split: option.splits)
  from assms(1) rec have "record_error rec = None \<or> record_metrics rec = []"
    by blast
  with err dat show ?thesis by auto
qed

text \<open>
  C5. Starting from the empty database and after any sequence of \<open>save\<close> calls, with
  any \<open>ProcessedData\<close> values at all (also values that carry both an error and metrics),
  every report that \<open>get\<close> returns has no error or has no metrics.
\<close>

theorem error_excludes_metrics:
  "get (fold (save column) ps Map.empty) rid = Some r \<Longrightarrow> error r = None \<or> data r = []"
proof -
  assume g: "get (fold (save column) ps Map.empty) rid = Some r"
  have "\<forall>k rec. fold (save column) ps Map.empty k = Some rec \<longrightarrow> record_error rec = None \<or> record_metrics rec = []"
    by (rule exclusion_fold_save) simp
  then show ?thesis using g by (rule get_exclusion)
qed

theorem error_excludes_metrics_witness:
  "get (fold (save sqlite_datetime)
          [\<lparr>report_id = 1, data = [(''cash'', \<lparr>current = Some ''1'', previous = None\<rparr>)],
            processed_at = datetime_now 0, error = None\<rparr>,
           \<lparr>report_id = 1, data = [(''cash'', \<lparr>current = Some ''2'', previous = None\<rparr>)],
            processed_at = datetime_now 3, error = Some ''boom''\<rparr>]
          Map.empty) 1
     = Some \<lparr>report_id = 1, data = [], processed_at = \<lparr>wall_clock = 3, utcoffset = None\<rparr>,
             error = Some ''boom''\<rparr>
   \<and> (error \<lparr>report_id = 1, data = [], processed_at = \<lparr>wall_clock = 3, utcoffset = None\<rparr>,
              error = Some ''boom''\<rparr> = None
        \<or> data \<lparr>report_id = 1, data = [], processed_at = \<lparr>wall_clock = 3, utcoffset = None\<rparr>,
                 error = Some ''boom''\<rparr> = [])"
  using error_excludes_metrics
    [where column = sqlite_datetime
       and ps = "[\<lparr>report_id = 1, data = [(''cash'', \<lparr>current = Some ''1'', previous = None\<rparr>)],
                   processed_at = datetime_now 0, error = None\<rparr>,
                  \<lparr>report_id = 1, data = [(''cash'', \<lparr>current = Some ''2'', previous = None\<rparr>)],
                   processed_at = datetime_now 3, error = Some ''boom''\<rparr>]"
       and rid = 1
       and r = "\<lparr>report_id = 1, data = [], processed_at = \<lparr>wall_clock = 3, utcoffset = None\<rparr>,
                 error = Some ''boom''\<rparr>"]
  by (simp add: get_save sqlite_datetime_def datetime_now_def)

section \<open>Saving twice\<close>

text \<open>
  C6. For two reports with the same identifier, the later one with no error or with no
  metrics (as the data model requires of a report): saving the earlier and then the later
  one leaves \<open>get\<close> returning exactly the later report's metrics mapping and
  \<open>error\<close>, and as \<open>processed_at\<close> the value that the store's column returns for the
  later report's \<open>processed_at\<close>. Nothing of the earlier report remains: the database
  is the one obtained by saving the later report alone.
\<close>

theorem upsert_overwrite:
  assumes "report_id earlier = report_id later"
    and "distinct (keys (data later))"
    and "error later = None \<or> data later = []"
  shows "get (save column later (save column earlier db)) (report_id later)
           = Some (later\<lparr>processed_at := column (processed_at later)\<rparr>)
         \<and> save column later (save column earlier db) = save column later db"
proof -
  from assms(3) have "(if error later = None then data later else []) = data later"
    by auto
  with assms(2) have "get (save column later db) (report_id later)
                        = Some (later\<lparr>processed_at := column (processed_at later)\<rparr>)"
    by (simp add: get_save_well_formed)
  moreover from assms(1) have "save column later (save column earlier db) = save column later db"
    by (rule save_save)
  ultimately show ?thesis by simp
qed

theorem upsert_overwrite_witness:
  "get (save sqlite_datetime
          \<lparr>report_id = 1, data = [(''debt'', \<lparr>current = Some ''5'', previous = None\<rparr>)],
           processed_at = datetime_now 3, error = None\<rparr>
          (save sqlite_datetime
             \<lparr>report_id = 1, data = [(''cash'', \<lparr>current = Some ''1'', previous = Some ''0''\<rparr>)],
              processed_at = datetime_now 0, error = None\<rparr>
             Map.empty)) 1
     = Some \<lparr>report_id = 1, data = [(''debt'', \<lparr>current = Some ''5'', previous = None\<rparr>)],
             processed_at = \<lparr>wall_clock = 3, utcoffset = None\<rparr>, error = None\<rparr>"
proof -
  let ?earlier = "\<lparr>report_id = 1, data = [(''cash'', \<lparr>current = Some ''1'', previous = Some ''0''\<rparr>)],
                   processed_at = datetime_now 0, error = None\<rparr>"
  let ?later = "\<lparr>report_id = 1, data = [(''debt'', \<lparr>current = Some ''5'', previous = None\<rparr>)],
                 processed_at = datetime_now 3, error = None\<rparr>"
  have same_id: "report_id ?earlier = report_id ?later" by simp
  have dict: "distinct (keys (data ?later))" by (simp add: keys_def)
  have exclusive: "error ?later = None \<or> data ?later = []" by simp
  from upsert_overwrite [OF same_id dict exclusive, of sqlite_datetime Map.empty, THEN conjunct1]
  show ?thesis by (simp add: sqlite_datetime_def datetime_now_def)
qed

text \<open>
  On the default store the returned \<open>processed_at\<close> is not the later report's. Both
  reports below are as the pipeline builds them: no error, an aware timestamp in UTC. What
  \<open>get\<close> returns after the two saves carries the same date and time fields without
  \<open>tzinfo\<close>, which does not compare equal to the later report's timestamp.
\<close>

theorem upsert_overwrite_counterexample:
  "report_id \<lparr>report_id = 1, data = [(''cash'', \<lparr>current = Some ''1'', previous = Some ''0''\<rparr>)],
              processed_at = datetime_now 0, error = None\<rparr>
     = report_id \<lparr>report_id = 1, data = [(''debt'', \<lparr>current = Some ''5'', previous = None\<rparr>)],
                  processed_at = datetime_now 3, error = None\<rparr>
   \<and> data \<lparr>report_id = 1, data = [(''cash'', \<lparr>current = Some ''1'', previous = Some ''0''\<rparr>)],
            processed_at = datetime_now 0, error = None\<rparr>
     \<noteq> data \<lparr>report_id = 1, data = [(''debt'', \<lparr>current = Some ''5'', previous = None\<rparr>)],
              processed_at = datetime_now 3, error = None\<rparr>
   \<and> map_option processed_at
        (get (save sqlite_datetime
                \<lparr>report_id = 1, data = [(''debt'', \<lparr>current = Some ''5'', previous = None\<rparr>)],
                 processed_at = datetime_now 3, error = None\<rparr>
                (save sqlite_datetime
                   \<lparr>report_id = 1, data = [(''cash'', \<lparr>current = Some ''1'', previous = Some ''0''\<rparr>)],
                    processed_at = datetime_now 0, error = None\<rparr>
                   Map.empty)) 1)
     = Some \<lparr>wall_clock = 3, utcoffset = None\<rparr>
   \<and> \<not> datetime_eq \<lparr>wall_clock = 3, utcoffset = None\<rparr> (datetime_now 3)"
  by (simp add: get_save sqlite_datetime_def datetime_now_def datetime_eq_def)

text \<open>
  C7. For a report with no error or with no metrics (as the data model requires of a
  report): saving it twice leaves \<open>get\<close> returning its identifier, metrics and error
  unchanged, and as \<open>processed_at\<close> the value that the store's column returns for the
  report's \<open>processed_at\<close>; the second save changes nothing, and one save followed by
  \<open>get\<close> already returns the same. The result is equal to the report whenever the
  column returns the timestamp as it was written. The metric values are returned as they
  are, so an absent value comes back absent and an empty string comes back as an empty
  string.
\<close>

theorem save_idempotent_round_trip:
  assumes "distinct (keys (data r))" and "error r = None \<or> data r = []"
  shows "get (save column r (save column r db)) (report_id r)
           = Some (r\<lparr>processed_at := column (processed_at r)\<rparr>)
         \<and> save column r (save column r db) = save column r db
         \<and> get (save column r db) (report_id r) = Some (r\<lparr>processed_at := column (processed_at r)\<rparr>)
         \<and> (column (processed_at r) = processed_at r
              \<longrightarrow> get (save column r (save column r db)) (report_id r) = Some r)"
proof -
  from assms(2) have "(if error r = None then data r else []) = data r"
    by auto
  with assms(1) have once: "get (save column r db) (report_id r)
                              = Some (r\<lparr>processed_at := column (processed_at r)\<rparr>)"
    by (simp add: get_save_well_formed)
  have twice: "save column r (save column r db) = save column r db"
    by (rule save_save) simp
  from once twice show ?thesis by auto
qed

theorem save_idempotent_round_trip_witness:
  "get (save sqlite_datetime
          \<lparr>report_id = 1, data = [(''cash'', \<lparr>current = None, previous = Some ''''\<rparr>)],
           processed_at = datetime_now 0, error = None\<rparr>
          (save sqlite_datetime
             \<lparr>report_id = 1, data = [(''cash'', \<lparr>current = None, previous = Some ''''\<rparr>)],
              processed_at = datetime_now 0, error = None\<rparr>
             Map.empty)) 1
     = Some \<lparr>report_id = 1, data = [(''cash'', \<lparr>current = None, previous = Some ''''\<rparr>)],
             processed_at = \<lparr>wall_clock = 0, utcoffset = None\<rparr>, error = None\<rparr>"
proof -
  let ?r = "\<lparr>report_id = 1, data = [(''cash'', \<lparr>current = None, previous = Some ''''\<rparr>)],
             processed_at = datetime_now 0, error = None\<rparr>"
  have dict: "distinct (keys (data ?r))" by (simp add: keys_def)
  have exclusive: "error ?r = None \<or> data ?r = []" by simp
  from save_idempotent_round_trip [OF dict exclusive, of sqlite_datetime Map.empty, THEN conjunct1]
  show ?thesis by (simp add: sqlite_datetime_def datetime_now_def)
qed

text \<open>
  On the default store the report does not come back equal to itself. The report below is
  as the pipeline builds it: no error, an aware timestamp in UTC. After two saves \<open>get\<close>
  returns it with a naive timestamp, and the two values are not equal.
\<close>

theorem save_idempotent_round_trip_counterexample:
  "get (save sqlite_datetime
          \<lparr>report_id = 1, data = [(''cash'', \<lparr>current = Some ''1'', previous = None\<rparr>)],
           processed_at = datetime_now 0, error = None\<rparr>
          (save sqlite_datetime
             \<lparr>report_id = 1, data = [(''cash'', \<lparr>current = Some ''1'', previous = None\<rparr>)],
              processed_at = datetime_now 0, error = None\<rparr>
             Map.empty)) 1
     = Some \<lparr>report_id = 1, data = [(''cash'', \<lparr>current = Some ''1'', previous = None\<rparr>)],
             processed_at = \<lparr>wall_clock = 0, utcoffset = None\<rparr>, error = None\<rparr>
   \<and> \<not> ProcessedData_eq
          \<lparr>report_id = 1, data = [(''cash'', \<lparr>current = Some ''1'', previous = None\<rparr>)],
           processed_at = \<lparr>wall_clock = 0, utcoffset = None\<rparr>, error = None\<rparr>
          \<lparr>report_id = 1, data = [(''cash'', \<lparr>current = Some ''1'', previous = None\<rparr>)],
           processed_at = datetime_now 0, error = None\<rparr>"
  by (simp add: get_save_well_formed keys_def sqlite_datetime_def datetime_now_def datetime_eq_def
      ProcessedData_eq_def)

section \<open>Retrieval\<close>

lemma get_processed_report_not_found:
  "get db rid = None \<Longrightarrow> get_processed_report db rid = Inl (HTTPException 404 ''Report not found'')"
  by (simp add: get_processed_report_def)

lemma get_processed_report_failed:
  "get db rid = Some r \<Longrightarrow> error r = Some text \<Longrightarrow> text \<noteq> [] \<Longrightarrow>
   get_processed_report db rid = Inl (HTTPException 500 ''Report processing failed. Please try again later.'')"
  by (simp add: get_processed_report_def truthy_def)

lemma get_processed_report_served:
  "get db rid = Some r \<Longrightarrow> error r = None \<or> error r = Some [] \<Longrightarrow>
   get_processed_report db rid =
     Inr \<lparr>response_report_id = report_id r, response_processed_at = processed_at r, response_data = data r\<rparr>"
  by (auto simp: get_processed_report_def truthy_def)

text \<open>
  C8. The retrieval endpoint answers 404 when \<open>get\<close> returns nothing
  (\<open>get_processed_report_not_found\<close>) and answers with the fixed message of status 500
  when the stored error is a non-empty text (\<open>get_processed_report_failed\<close>). A stored
  error that is present but empty is not answered so: the run below fails with an
  exception whose text is empty, the failed report is saved with \<open>error = Some ''''\<close>,
  and the endpoint returns the success payload.
\<close>

theorem failed_run_with_empty_error_text_is_served:
  "\<exists>db'. process_in_background sqlite_datetime
           (builder_process (\<lambda>meta text config. Inr ''prompt'') (\<lambda>prompt. Inl (Exception '''')) 1 0 ConfigNone)
           5 \<lparr>content = ''body'', metadata = []\<rparr> 7 Map.empty = Inr db'
         \<and> get db' 7 = Some \<lparr>report_id = 7, data = [],
                              processed_at = \<lparr>wall_clock = 5, utcoffset = None\<rparr>, error = Some ''''\<rparr>
         \<and> get_processed_report db' 7
             = Inr \<lparr>response_report_id = 7,
                    response_processed_at = \<lparr>wall_clock = 5, utcoffset = None\<rparr>, response_data = []\<rparr>"
  by (simp add: process_in_background_def builder_process_def process_def get_save
      get_processed_report_def truthy_def sqlite_datetime_def datetime_now_def)

text \<open>
  C9. The failure branch of the retrieval endpoint tests the error text for truthiness.
  A saved report whose error is the empty string is therefore served as a success, with
  its empty metrics mapping and its \<open>processed_at\<close>; and a failed run whose exception
  has an empty \<open>str\<close> produces exactly such a report.
\<close>

theorem empty_error_text_is_served:
  "(error p = Some '''' \<longrightarrow>
      get_processed_report (save column p db) (report_id p)
        = Inr \<lparr>response_report_id = report_id p, response_processed_at = column (processed_at p),
               response_data = []\<rparr>)
   \<and> (bp d = Inr (Failure exc) \<and> str exc = '''' \<longrightarrow>
      (\<exists>db'. process_in_background column bp now d gid db = Inr db'
         \<and> get db' gid = Some \<lparr>report_id = gid, data = [], processed_at = column (datetime_now now),
                                error = Some ''''\<rparr>
         \<and> get_processed_report db' gid
             = Inr \<lparr>response_report_id = gid, response_processed_at = column (datetime_now now),
                    response_data = []\<rparr>))"
proof (intro conjI impI)
  assume empty_text: "error p = Some ''''"
  have "get (save column p db) (report_id p)
          = Some \<lparr>report_id = report_id p, data = [], processed_at = column (processed_at p),
                  error = Some ''''\<rparr>"
    using empty_text by (simp add: get_save)
  moreover have "\<not> truthy (Some '''')"
    by (simp add: truthy_def)
  ultimately show "get_processed_report (save column p db) (report_id p)
        = Inr \<lparr>response_report_id = report_id p, response_processed_at = column (processed_at p),
               response_data = []\<rparr>"
    by (simp add: get_processed_report_def)
next
  assume "bp d = Inr (Failure exc) \<and> str exc = ''''"
  then have returned: "bp d = Inr (Failure exc)" and empty_text: "str exc = ''''"
    by simp_all
  let ?failed = "\<lparr>report_id = gid, data = [], processed_at = datetime_now now, error = Some (str exc)\<rparr>"
  from returned have run: "process_in_background column bp now d gid db = Inr (save column ?failed db)"
    by (rule process_in_background_Failure)
  have stored: "get (save column ?failed db) gid
               = Some \<lparr>report_id = gid, data = [], processed_at = column (datetime_now now),
                       error = Some ''''\<rparr>"
    using empty_text by (simp add: get_save)
  then have "get_processed_report (save column ?failed db) gid
               = Inr \<lparr>response_report_id = gid, response_processed_at = column (datetime_now now),
                      response_data = []\<rparr>"
    by (simp add: get_processed_report_def truthy_def)
  with run stored show "\<exists>db'. process_in_background column bp now d gid db = Inr db'
         \<and> get db' gid = Some \<lparr>report_id = gid, data = [], processed_at = column (datetime_now now),
                                error = Some ''''\<rparr>
         \<and> get_processed_report db' gid
             = Inr \<lparr>response_report_id = gid, response_processed_at = column (datetime_now now),
                    response_data = []\<rparr>"
    by simp
qed

theorem empty_error_text_is_served_witness:
  "get_processed_report
     (save sqlite_datetime
        \<lparr>report_id = 2, data = [(''cash'', \<lparr>current = Some ''1'', previous = None\<rparr>)],
         processed_at = datetime_now 4, error = Some ''''\<rparr> Map.empty) 2
     = Inr \<lparr>response_report_id = 2, response_processed_at = \<lparr>wall_clock = 4, utcoffset = None\<rparr>,
            response_data = []\<rparr>
   \<and> (\<exists>db'. process_in_background sqlite_datetime (\<lambda>d. Inr (Failure (Exception ''''))) 5
               \<lparr>content = ''body'', metadata = []\<rparr> 7 Map.empty = Inr db'
         \<and> get db' 7 = Some \<lparr>report_id = 7, data = [],
                              processed_at = \<lparr>wall_clock = 5, utcoffset = None\<rparr>, error = Some ''''\<rparr>
         \<and> get_processed_report db' 7
             = Inr \<lparr>response_report_id = 7, response_processed_at = \<lparr>wall_clock = 5, utcoffset = None\<rparr>,
                    response_data = []\<rparr>)"
  using empty_error_text_is_served
    [where p = "\<lparr>report_id = 2, data = [(''cash'', \<lparr>current = Some ''1'', previous = None\<rparr>)],
                 processed_at = datetime_now 4, error = Some ''''\<rparr>"
       and column = sqlite_datetime
       and db = Map.empty and bp = "\<lambda>d. Inr (Failure (Exception ''''))" and exc = "Exception ''''"
       and d = "\<lparr>content = ''body'', metadata = []\<rparr>" and now = 5 and gid = 7]
  by (simp add: sqlite_datetime_def datetime_now_def)

section \<open>The identifier of the persisted report\<close>

lemma run_saves_under_generated_id:
  assumes "format_prompt (metadata d) (content d) (ReportDataProcessor_init (ReportDataBuilder_init config)) = Inr prompt"
  shows "\<exists>p. process_in_background column (builder_process format_prompt ainvoke processor_id now config) now' d gid db
               = Inr (save column p db) \<and> report_id p = gid"
proof (cases "ainvoke prompt")
  case (Inl exc)
  with assms have "builder_process format_prompt ainvoke processor_id now config d = Inr (Failure exc)"
    by (rule builder_process_llm_raises)
  then have "process_in_background column (builder_process format_prompt ainvoke processor_id now config) now' d gid db
               = Inr (save column \<lparr>report_id = gid, data = [], processed_at = datetime_now now',
                                error = Some (str exc)\<rparr> db)"
    by (rule process_in_background_Failure)
  then show ?thesis
    by (intro exI [of _ "\<lparr>report_id = gid, data = [], processed_at = datetime_now now',
                          error = Some (str exc)\<rparr>"]) simp
next
  case (Inr extraction)
  with assms have "builder_process format_prompt ainvoke processor_id now config d =
     Inr (Success \<lparr>report_id = processor_id,
                   data = build_metrics_from_extraction (ReportDataProcessor_init (ReportDataBuilder_init config)) extraction,
                   processed_at = datetime_now now, error = None\<rparr>)"
    by (rule builder_process_llm_returns)
  then have "process_in_background column (builder_process format_prompt ainvoke processor_id now config) now' d gid db
               = Inr (save column (\<lparr>report_id = processor_id,
                   data = build_metrics_from_extraction (ReportDataProcessor_init (ReportDataBuilder_init config)) extraction,
                   processed_at = datetime_now now, error = None\<rparr>\<lparr>report_id := gid\<rparr>) db)"
    by (rule process_in_background_Success)
  then show ?thesis
    by (intro exI [of _ "\<lparr>report_id = gid,
                   data = build_metrics_from_extraction (ReportDataProcessor_init (ReportDataBuilder_init config)) extraction,
                   processed_at = datetime_now now, error = None\<rparr>"]) simp
qed

lemma build_metrics_ignores_proposed_id:
  "build_metrics_from_extraction metrics_config (extraction\<lparr>extraction_report_id := proposed\<rparr>)
     = build_metrics_from_extraction metrics_config extraction"
  by (simp add: build_metrics_from_extraction_def)

lemma run_ignores_ids:
  "process_in_background column
     (builder_process format_prompt
        (\<lambda>prompt. map_sum id (\<lambda>extraction. extraction\<lparr>extraction_report_id := proposed\<rparr>) (ainvoke prompt))
        other_processor_id now config) now' d gid db
   = process_in_background column (builder_process format_prompt ainvoke processor_id now config) now' d gid db"
  by (simp add: process_in_background_def builder_process_def process_def build_metrics_ignores_proposed_id
      split: sum.splits)

text \<open>
  C10. The identifier under which a run persists its report is the one the upload handler
  generated and returned to the caller. Two runs for the same upload that differ in what
  the extractor does (and in the identifier the processor generates) both end with a
  report stored under that identifier, and with the same set of stored identifiers.
  Changing the \<open>report_id\<close> proposed inside the extraction result, or the identifier
  generated by the processor, changes nothing at all in the outcome of the run.
\<close>

theorem report_id_independent_of_extractor:
  assumes up: "upload_report reader_structured_output reader_read temp_file_name new_id upload = Inr (response, (d, gid))"
    and fp: "format_prompt (metadata d) (content d) (ReportDataProcessor_init (ReportDataBuilder_init config)) = Inr prompt"
  shows "(\<exists>dba dbb ra rb.
            process_in_background column (builder_process format_prompt ainvoke_a processor_id_a now_a config) later_a d gid db = Inr dba
          \<and> process_in_background column (builder_process format_prompt ainvoke_b processor_id_b now_b config) later_b d gid db = Inr dbb
          \<and> get dba (upload_report_id response) = Some ra
          \<and> get dbb (upload_report_id response) = Some rb
          \<and> report_id ra = new_id \<and> report_id rb = new_id
          \<and> dom dba = dom dbb)
       \<and> process_in_background column
            (builder_process format_prompt
               (\<lambda>prompt. map_sum id (\<lambda>extraction. extraction\<lparr>extraction_report_id := proposed\<rparr>) (ainvoke_a prompt))
               processor_id_b now_a config) later_a d gid db
          = process_in_background column (builder_process format_prompt ainvoke_a processor_id_a now_a config) later_a d gid db"
proof -
  from upload_report_ids [OF up] have ids: "upload_report_id response = new_id" "gid = new_id"
    by simp_all
  from fp have "\<exists>p. process_in_background column (builder_process format_prompt ainvoke_a processor_id_a now_a config) later_a d gid db
               = Inr (save column p db) \<and> report_id p = gid"
    by (rule run_saves_under_generated_id)
  then obtain pa where a: "process_in_background column (builder_process format_prompt ainvoke_a processor_id_a now_a config) later_a d gid db
                        = Inr (save column pa db)" "report_id pa = gid"
    by blast
  from fp have "\<exists>p. process_in_background column (builder_process format_prompt ainvoke_b processor_id_b now_b config) later_b d gid db
               = Inr (save column p db) \<and> report_id p = gid"
    by (rule run_saves_under_generated_id)
  then obtain pb where b: "process_in_background column (builder_process format_prompt ainvoke_b processor_id_b now_b config) later_b d gid db
                        = Inr (save column pb db)" "report_id pb = gid"
    by blast
  have "get (save column pa db) new_id \<noteq> None \<and> get (save column pb db) new_id \<noteq> None"
    using a(2) b(2) ids by (simp add: get_save)
  then obtain ra rb where g: "get (save column pa db) new_id = Some ra" "get (save column pb db) new_id = Some rb"
    by auto
  then have "report_id ra = new_id" "report_id rb = new_id"
    using a(2) b(2) ids by (auto simp: get_save)
  moreover have "dom (save column pa db) = dom (save column pb db)"
    using a(2) b(2) by (simp add: dom_save)
  ultimately have "\<exists>dba dbb ra rb.
            process_in_background column (builder_process format_prompt ainvoke_a processor_id_a now_a config) later_a d gid db = Inr dba
          \<and> process_in_background column (builder_process format_prompt ainvoke_b processor_id_b now_b config) later_b d gid db = Inr dbb
          \<and> get dba (upload_report_id response) = Some ra
          \<and> get dbb (upload_report_id response) = Some rb
          \<and> report_id ra = new_id \<and> report_id rb = new_id
          \<and> dom dba = dom dbb"
    using a(1) b(1) g ids by auto
  then show ?thesis
    by (simp add: run_ignores_ids)
qed

theorem report_id_independent_of_extractor_witness:
  "\<exists>dba dbb ra rb.
      process_in_background sqlite_datetime
        (builder_process (\<lambda>meta text config. Inr ''prompt'')
           (\<lambda>prompt. Inr \<lparr>extraction_report_id = Some ''from-llm'',
                            metrics = [\<lparr>name = ''cash'', metric_current = Some ''10'', metric_previous = Some ''9''\<rparr>]\<rparr>)
           1 0 (ConfigMapping [(''cash'', PyDict [])]))
        5 \<lparr>content = ''body'', metadata = [(''source'', PyStr ''/tmp/x.xlsx'')]\<rparr> 7 Map.empty = Inr dba
    \<and> process_in_background sqlite_datetime
        (builder_process (\<lambda>meta text config. Inr ''prompt'') (\<lambda>prompt. Inl (Exception ''LLM timeout''))
           2 3 (ConfigMapping [(''cash'', PyDict [])]))
        6 \<lparr>content = ''body'', metadata = [(''source'', PyStr ''/tmp/x.xlsx'')]\<rparr> 7 Map.empty = Inr dbb
    \<and> get dba 7 = Some ra \<and> get dbb 7 = Some rb
    \<and> report_id ra = 7 \<and> report_id rb = 7 \<and> dom dba = dom dbb"
  using report_id_independent_of_extractor
    [where reader_structured_output = "\<lambda>path. Inr [''row'']"
       and reader_read = "\<lambda>path. Inr \<lparr>content = ''body'', metadata = [(''source'', PyStr path)]\<rparr>"
       and temp_file_name = "''/tmp/x.xlsx''" and new_id = 7
       and upload = "\<lparr>filename = Some ''Report.XLSX'', content_type = Some ''application/octet-stream'', upload_size = 16\<rparr>"
       and response = "\<lparr>upload_report_id = 7, structured_output = [''row'']\<rparr>"
       and d = "\<lparr>content = ''body'', metadata = [(''source'', PyStr ''/tmp/x.xlsx'')]\<rparr>" and gid = 7
       and format_prompt = "\<lambda>meta text config. Inr ''prompt''" and prompt = "''prompt''"
       and ainvoke_a = "\<lambda>prompt. Inr \<lparr>extraction_report_id = Some ''from-llm'',
                            metrics = [\<lparr>name = ''cash'', metric_current = Some ''10'', metric_previous = Some ''9''\<rparr>]\<rparr>"
       and ainvoke_b = "\<lambda>prompt. Inl (Exception ''LLM timeout'')"
       and processor_id_a = 1 and processor_id_b = 2 and now_a = 0 and now_b = 3
       and config = "ConfigMapping [(''cash'', PyDict [])]" and later_a = 5 and later_b = 6
       and db = Map.empty and column = sqlite_datetime, THEN conjunct1]
  by (simp add: upload_report_def persist_upload_def endswith_def lower_def lower_char_def
      ALLOWED_CONTENT_TYPES_def MAX_UPLOAD_SIZE_BYTES_def)

end
